theory Spec2Isabelle
  imports Main
begin

section \<open>Python values, exceptions and the HTTP boundary\<close>

text \<open>
  The client and the orchestrator handle decoded JSON and YAML documents without
  declaring their shape, so the model keeps them as dynamically typed values. Floating
  point numbers do not occur in any operation the code performs on such a value and are
  left out. A dictionary is an association list in insertion order.
\<close>

datatype pyval =
    PNone
  | PBool bool
  | PInt int
  | PStr string
  | PList "pyval list"
  | PDict "(string \<times> pyval) list"

text \<open>
  A formatted string literal is kept as the sequence of its parts: the literal text and
  the interpolated values, in order. Rendering an interpolated value to characters is the
  interpreter's business (and for a set it depends on the hash order).
\<close>

datatype piece =
    Lit string
  | Fmt pyval
  | FmtSet "string set"

text \<open>
  The exceptions that can leave the code. \<open>AirbyteAPIError\<close> is the class declared in
  \<^verbatim>\<open>airbyte_client.py\<close>; \<open>PyException\<close> is a plain \<^verbatim>\<open>Exception(msg)\<close>; the others
  are raised by the interpreter (their message text is not modelled) or by the HTTP
  library when no response arrives.
\<close>

datatype exn =
    AirbyteAPIError "piece list"
  | PyException "piece list"
  | KeyError string
  | TypeError
  | AttributeError
  | RequestException
  | OSError
  | YAMLError

text \<open>Truth value of an object, as \<^verbatim>\<open>if x\<close>, \<^verbatim>\<open>not x\<close> and \<^verbatim>\<open>x or y\<close> test it.\<close>

fun truthy :: "pyval \<Rightarrow> bool" where
  "truthy PNone = False"
| "truthy (PBool b) = b"
| "truthy (PInt i) = (i \<noteq> 0)"
| "truthy (PStr s) = (s \<noteq> [])"
| "truthy (PList xs) = (xs \<noteq> [])"
| "truthy (PDict d) = (d \<noteq> [])"

text \<open>\<^verbatim>\<open>x.get(key, default)\<close>: only a dictionary has the method.\<close>

fun py_get :: "pyval \<Rightarrow> string \<Rightarrow> pyval \<Rightarrow> exn + pyval" where
  "py_get (PDict d) k dflt = Inr (case map_of d k of Some v \<Rightarrow> v | None \<Rightarrow> dflt)"
| "py_get _ k dflt = Inl AttributeError"

text \<open>\<^verbatim>\<open>x[key]\<close> with a string key: a missing key raises KeyError, any other
  kind of object raises TypeError.\<close>

fun py_getitem :: "pyval \<Rightarrow> string \<Rightarrow> exn + pyval" where
  "py_getitem (PDict d) k = (case map_of d k of Some v \<Rightarrow> Inr v | None \<Rightarrow> Inl (KeyError k))"
| "py_getitem _ k = Inl TypeError"

text \<open>\<^verbatim>\<open>d[key] = v\<close> on a dictionary: an existing key keeps its place.\<close>

fun dict_set :: "(string \<times> pyval) list \<Rightarrow> string \<Rightarrow> pyval \<Rightarrow> (string \<times> pyval) list" where
  "dict_set [] k v = [(k, v)]"
| "dict_set ((k', v') # d) k v = (if k' = k then (k, v) # d else (k', v') # dict_set d k v)"

text \<open>
  What the HTTP library hands over: the request as the client built it, and the response
  with what the client reads of it. \<open>ok\<close> is the library's own verdict on the status
  code. The body is either the value it decodes to, or, when decoding raises ValueError,
  its raw text (the only case in which the client reads the text).
\<close>

datatype body = Json pyval | NotJson string

record request =
  http_method :: string
  url :: string
  json_body :: "pyval option"
  params :: "pyval option"
  req_headers :: "(string \<times> string) list"
  timeout :: nat

record response =
  status_code :: int
  ok :: bool
  body :: body

type_synonym http = "request \<Rightarrow> exn + response"

section \<open>The API client (airbyte_client.py)\<close>

record client =
  api_url :: string
  headers :: "(string \<times> string) list"
  workspace_id :: string

definition rstrip_slash :: "string \<Rightarrow> string" where
  "rstrip_slash s = rev (dropWhile (\<lambda>c. c = CHR ''/'') (rev s))"

definition AirbyteClient :: "string \<Rightarrow> string \<Rightarrow> string \<Rightarrow> client" where
  "AirbyteClient url_arg api_token ws =
     \<lparr>api_url = rstrip_slash url_arg,
      headers = [(''Authorization'', ''Bearer '' @ api_token),
                 (''Content-Type'', ''application/json'')],
      workspace_id = ws\<rparr>"

text \<open>The UTF-8 bytes of the arrow in the two status messages.\<close>

definition arrow :: string where
  "arrow = [CHR 0xE2, CHR 0x86, CHR 0x92]"

text \<open>
  What both helpers do with a response: decode first, then look at the status. The
  method name only enters the message.
\<close>

definition handle_response :: "string \<Rightarrow> string \<Rightarrow> string \<Rightarrow> response \<Rightarrow> exn + pyval" where
  "handle_response meth full_url path resp =
     (case body resp of
        NotJson text \<Rightarrow>
          Inl (AirbyteAPIError
                 [Lit ''Non-JSON response from '', Fmt (PStr full_url), Lit '': '',
                  Fmt (PStr text)])
      | Json payload \<Rightarrow>
          if \<not> ok resp then
            (case py_get payload ''message'' PNone of
               Inl e \<Rightarrow> Inl e
             | Inr m \<Rightarrow>
                 let msg = (if truthy m then m else payload) in
                 Inl (AirbyteAPIError
                        [Lit (''Airbyte API '' @ meth @ '' ''), Fmt (PStr path),
                         Lit ('' '' @ arrow @ '' HTTP ''), Fmt (PInt (status_code resp)),
                         Lit '': '', Fmt msg]))
          else Inr payload)"

text \<open>
  The helpers \<^verbatim>\<open>_post\<close> and \<^verbatim>\<open>_get\<close> (an identifier cannot start with an underscore
  here). \<open>net\<close> stands for the HTTP library and the remote platform behind it: it
  answers a request with a response, or raises when none arrives. Every call appends its
  request to the list of calls made so far.
\<close>

definition post :: "client \<Rightarrow> http \<Rightarrow> string \<Rightarrow> pyval \<Rightarrow> request list \<Rightarrow> (exn + pyval) \<times> request list" where
  "post c net path payload calls =
     (let full_url = api_url c @ path;
          req = \<lparr>http_method = ''POST'', url = full_url, json_body = Some payload,
                 params = None, req_headers = headers c, timeout = 60\<rparr>
      in (case net req of
            Inl e \<Rightarrow> Inl e
          | Inr resp \<Rightarrow> handle_response ''POST'' full_url path resp,
          calls @ [req]))"

definition get :: "client \<Rightarrow> http \<Rightarrow> string \<Rightarrow> pyval option \<Rightarrow> request list \<Rightarrow> (exn + pyval) \<times> request list" where
  "get c net path ps calls =
     (let full_url = api_url c @ path;
          req = \<lparr>http_method = ''GET'', url = full_url, json_body = None,
                 params = ps, req_headers = headers c, timeout = 60\<rparr>
      in (case net req of
            Inl e \<Rightarrow> Inl e
          | Inr resp \<Rightarrow> handle_response ''GET'' full_url path resp,
          calls @ [req]))"

subsection \<open>Sources and destinations\<close>

definition create_source :: "client \<Rightarrow> http \<Rightarrow> pyval \<Rightarrow> pyval \<Rightarrow> pyval \<Rightarrow> request list \<Rightarrow> (exn + pyval) \<times> request list" where
  "create_source c net name definition_id config calls =
     (let payload = PDict [(''name'', name),
                           (''sourceDefinitionId'', definition_id),
                           (''workspaceId'', PStr (workspace_id c)),
                           (''connectionConfiguration'', config)];
          (r, calls') = post c net ''/sources/create'' payload calls
      in (case r of Inl e \<Rightarrow> Inl e | Inr resp \<Rightarrow> py_getitem resp ''sourceId'', calls'))"

definition check_source :: "client \<Rightarrow> http \<Rightarrow> pyval \<Rightarrow> request list \<Rightarrow> (exn + bool) \<times> request list" where
  "check_source c net source_id calls =
     (let (r, calls') = post c net ''/sources/check_connection''
                          (PDict [(''sourceId'', source_id)]) calls
      in (case r of
            Inl e \<Rightarrow> Inl e
          | Inr resp \<Rightarrow>
              (case py_get resp ''status'' PNone of
                 Inl e \<Rightarrow> Inl e
               | Inr st \<Rightarrow> Inr (st = PStr ''succeeded'')),
          calls'))"

definition create_destination :: "client \<Rightarrow> http \<Rightarrow> pyval \<Rightarrow> pyval \<Rightarrow> pyval \<Rightarrow> request list \<Rightarrow> (exn + pyval) \<times> request list" where
  "create_destination c net name definition_id config calls =
     (let payload = PDict [(''name'', name),
                           (''destinationDefinitionId'', definition_id),
                           (''workspaceId'', PStr (workspace_id c)),
                           (''connectionConfiguration'', config)];
          (r, calls') = post c net ''/destinations/create'' payload calls
      in (case r of Inl e \<Rightarrow> Inl e | Inr resp \<Rightarrow> py_getitem resp ''destinationId'', calls'))"

definition check_destination :: "client \<Rightarrow> http \<Rightarrow> pyval \<Rightarrow> request list \<Rightarrow> (exn + bool) \<times> request list" where
  "check_destination c net destination_id calls =
     (let (r, calls') = post c net ''/destinations/check_connection''
                          (PDict [(''destinationId'', destination_id)]) calls
      in (case r of
            Inl e \<Rightarrow> Inl e
          | Inr resp \<Rightarrow>
              (case py_get resp ''status'' PNone of
                 Inl e \<Rightarrow> Inl e
               | Inr st \<Rightarrow> Inr (st = PStr ''succeeded'')),
          calls'))"

subsection \<open>Schema discovery\<close>

text \<open>Truth value of an optional string and of an optional list of strings.\<close>

fun truthy_str :: "string option \<Rightarrow> bool" where
  "truthy_str None = False"
| "truthy_str (Some s) = (s \<noteq> [])"

fun truthy_strs :: "string list option \<Rightarrow> bool" where
  "truthy_strs None = False"
| "truthy_strs (Some ts) = (ts \<noteq> [])"

text \<open>
  The source stores an empty dictionary under \<^verbatim>\<open>"schema"\<close> and then fills it in place;
  the model fills the inner dictionary, by the same three assignments in the same order,
  and stores it.
\<close>

definition discover_schema :: "client \<Rightarrow> http \<Rightarrow> pyval \<Rightarrow> string option \<Rightarrow> string option \<Rightarrow> string list option \<Rightarrow> request list \<Rightarrow> (exn + pyval) \<times> request list" where
  "discover_schema c net source_id database schema tables calls =
     (let payload0 = [(''sourceId'', source_id), (''connectorType'', PStr ''source'')];
          payload =
            (if truthy_str database \<or> truthy_str schema \<or> truthy_strs tables then
               let f0 = [];
                   f1 = (if truthy_str database
                         then dict_set f0 ''database'' (PStr (the database)) else f0);
                   f2 = (if truthy_str schema
                         then dict_set f1 ''schema'' (PStr (the schema)) else f1);
                   f3 = (if truthy_strs tables
                         then dict_set f2 ''tables'' (PList (map PStr (the tables))) else f2)
               in dict_set payload0 ''schema'' (PDict f3)
             else payload0)
      in post c net ''/connections/discover_schema'' (PDict payload) calls)"

subsection \<open>Connections\<close>

definition create_connection :: "client \<Rightarrow> http \<Rightarrow> pyval \<Rightarrow> pyval \<Rightarrow> pyval \<Rightarrow> pyval \<Rightarrow> pyval \<Rightarrow> pyval \<Rightarrow> pyval \<Rightarrow> pyval \<Rightarrow> request list \<Rightarrow> (exn + pyval) \<times> request list" where
  "create_connection c net name source_id destination_id namespace_format schedule
       sync_catalog auto_propagate_schema status calls =
     (let payload = PDict [(''name'', name),
                           (''sourceId'', source_id),
                           (''destinationId'', destination_id),
                           (''namespaceFormat'', namespace_format),
                           (''schedule'', schedule),
                           (''syncCatalog'', sync_catalog),
                           (''autoPropagateSchema'', auto_propagate_schema),
                           (''status'', status)];
          (r, calls') = post c net ''/connections/create'' payload calls
      in (case r of Inl e \<Rightarrow> Inl e | Inr resp \<Rightarrow> py_getitem resp ''connectionId'', calls'))"

definition get_connection :: "client \<Rightarrow> http \<Rightarrow> pyval \<Rightarrow> request list \<Rightarrow> (exn + pyval) \<times> request list" where
  "get_connection c net connection_id calls =
     get c net ''/connections/get'' (Some (PDict [(''connectionId'', connection_id)])) calls"

section \<open>The sync catalog builder (setup_pipeline.py)\<close>

text \<open>
  What a \<^verbatim>\<open>for\<close> loop walks through: the elements of a list, the keys of a dictionary,
  the characters of a string; nothing else among these values is iterable.
\<close>

fun py_iter :: "pyval \<Rightarrow> exn + pyval list" where
  "py_iter (PList xs) = Inr xs"
| "py_iter (PDict d) = Inr (map (\<lambda>kv. PStr (fst kv)) d)"
| "py_iter (PStr s) = Inr (map (\<lambda>ch. PStr [ch]) s)"
| "py_iter _ = Inl TypeError"

text \<open>
  The loop over \<^verbatim>\<open>all_streams\<close>, with \<^verbatim>\<open>filtered\<close> as the accumulator. \<^verbatim>\<open>name in tables\<close>
  compares the name with each requested table, so it holds exactly when the name is
  one of these strings.
\<close>

fun filter_streams :: "pyval list \<Rightarrow> string list \<Rightarrow> pyval \<Rightarrow> pyval \<Rightarrow> pyval list \<Rightarrow> exn + pyval list" where
  "filter_streams [] tables sync_mode dest_sync_mode filtered = Inr filtered"
| "filter_streams (stream_entry # rest) tables sync_mode dest_sync_mode filtered =
     (case py_getitem stream_entry ''stream'' of
        Inl e \<Rightarrow> Inl e
      | Inr s \<Rightarrow>
     (case py_getitem s ''name'' of
        Inl e \<Rightarrow> Inl e
      | Inr name \<Rightarrow>
          if name \<in> PStr ` set tables then
            (case py_getitem s ''jsonSchema'' of
               Inl e \<Rightarrow> Inl e
             | Inr json_schema \<Rightarrow>
            (case py_getitem s ''supportedSyncModes'' of
               Inl e \<Rightarrow> Inl e
             | Inr modes \<Rightarrow>
            (case py_get s ''sourceDefinedCursor'' (PList []) of
               Inl e \<Rightarrow> Inl e
             | Inr cursor \<Rightarrow>
            (case py_get s ''sourceDefinedPrimaryKey'' (PList []) of
               Inl e \<Rightarrow> Inl e
             | Inr pk \<Rightarrow>
                 let st = PDict [(''stream'', PDict [(''name'', name),
                                                     (''jsonSchema'', json_schema),
                                                     (''supportedSyncModes'', modes)]),
                                 (''syncMode'', sync_mode),
                                 (''destinationSyncMode'', dest_sync_mode),
                                 (''cursorField'', cursor),
                                 (''primaryKey'', pk)]
                 in filter_streams rest tables sync_mode dest_sync_mode (filtered @ [st])))))
          else filter_streams rest tables sync_mode dest_sync_mode filtered))"

text \<open>The set comprehension \<^verbatim>\<open>{s["stream"]["name"] for s in filtered}\<close>, as a list.\<close>

fun stream_names :: "pyval list \<Rightarrow> exn + pyval list" where
  "stream_names [] = Inr []"
| "stream_names (s # ss) =
     (case py_getitem s ''stream'' of
        Inl e \<Rightarrow> Inl e
      | Inr st \<Rightarrow>
     (case py_getitem st ''name'' of
        Inl e \<Rightarrow> Inl e
      | Inr name \<Rightarrow>
     (case stream_names ss of
        Inl e \<Rightarrow> Inl e
      | Inr names \<Rightarrow> Inr (name # names))))"

definition build_sync_catalog :: "client \<Rightarrow> http \<Rightarrow> pyval \<Rightarrow> string \<Rightarrow> string \<Rightarrow> string list \<Rightarrow> pyval \<Rightarrow> pyval \<Rightarrow> request list \<Rightarrow> (exn + pyval) \<times> request list" where
  "build_sync_catalog c net source_id database schema tables sync_mode dest_sync_mode calls =
     (let (r, calls') = discover_schema c net source_id (Some database) (Some schema)
                          (Some tables) calls
      in (case r of
            Inl e \<Rightarrow> Inl e
          | Inr discover_resp \<Rightarrow>
         (case py_get discover_resp ''streams'' (PList []) of
            Inl e \<Rightarrow> Inl e
          | Inr all_streams \<Rightarrow>
              if \<not> truthy all_streams then
                Inl (PyException
                       [Lit ''No streams returned from discover_schema for tables '',
                        Fmt (PList (map PStr tables))])
              else
         (case py_iter all_streams of
            Inl e \<Rightarrow> Inl e
          | Inr entries \<Rightarrow>
         (case filter_streams entries tables sync_mode dest_sync_mode [] of
            Inl e \<Rightarrow> Inl e
          | Inr filtered \<Rightarrow>
              if length filtered \<noteq> length tables then
                (case stream_names filtered of
                   Inl e \<Rightarrow> Inl e
                 | Inr names \<Rightarrow>
                     let missing = set (filter (\<lambda>t. PStr t \<notin> set names) tables) in
                     Inl (PyException
                            [Lit ''Some tables were not discovered: '', FmtSet missing]))
              else Inr (PDict [(''streams'', PList filtered)])))),
          calls'))"

section \<open>The orchestrator (setup_pipeline.py)\<close>

text \<open>
  A run ends by \<^verbatim>\<open>sys.exit(n)\<close>, by falling off the end of \<^verbatim>\<open>main\<close> (exit status 0),
  or with an exception nobody caught. \<open>Ill_Typed\<close> marks the one place where the
  model stops: a \<^verbatim>\<open>tables\<close> entry of the connection document that is not a list of
  strings, which the annotation \<^verbatim>\<open>List[str]\<close> of \<^verbatim>\<open>build_sync_catalog\<close> excludes.
\<close>

datatype outcome = Exit nat | Uncaught exn | Ill_Typed

text \<open>A line written to standard error: the literal parts, and the exception formatted
  after them if there is one. The progress lines on standard output are not recorded.\<close>

datatype line = Line "piece list" | LineExn "piece list" exn

record world =
  api_calls :: "request list"
  err_lines :: "line list"

text \<open>
  What reading, substituting and parsing a configuration file gives under the run's
  environment: the file cannot be opened, the YAML parser rejects it, or a document.
\<close>

datatype loaded = Unreadable | Malformed | Parsed pyval

definition report :: "line \<Rightarrow> world \<Rightarrow> world" where
  "report l w = w\<lparr>err_lines := err_lines w @ [l]\<rparr>"

definition load_and_render_yaml :: "(string \<Rightarrow> loaded) \<Rightarrow> string \<Rightarrow> world \<Rightarrow> (outcome + pyval) \<times> world" where
  "load_and_render_yaml docs path w =
     (case docs path of
        Unreadable \<Rightarrow> (Inl (Uncaught OSError), w)
      | Malformed \<Rightarrow>
          (Inl (Exit 1),
           report (LineExn [Lit ''[ERROR] Failed to parse YAML '', Fmt (PStr path), Lit '': '']
                     YAMLError) w)
      | Parsed v \<Rightarrow> (Inr v, w))"

text \<open>The three kinds of handler in \<^verbatim>\<open>main\<close>: each prints and exits with status 1 when
  it catches, and lets every other exception through.\<close>

definition except_KeyError :: "piece list \<Rightarrow> exn \<Rightarrow> world \<Rightarrow> outcome \<times> world" where
  "except_KeyError prefix e w =
     (case e of
        KeyError k \<Rightarrow> (Exit 1, report (LineExn prefix e) w)
      | _ \<Rightarrow> (Uncaught e, w))"

definition except_AirbyteAPIError :: "piece list \<Rightarrow> exn \<Rightarrow> world \<Rightarrow> outcome \<times> world" where
  "except_AirbyteAPIError prefix e w =
     (case e of
        AirbyteAPIError m \<Rightarrow> (Exit 1, report (LineExn prefix e) w)
      | _ \<Rightarrow> (Uncaught e, w))"

definition except_Exception :: "piece list \<Rightarrow> exn \<Rightarrow> world \<Rightarrow> outcome \<times> world" where
  "except_Exception prefix e w = (Exit 1, report (LineExn prefix e) w)"

definition required_vars :: "string list" where
  "required_vars =
     [''SQLSERVER_HOST'', ''SQLSERVER_PORT'', ''SQLSERVER_USERNAME'', ''SQLSERVER_PASSWORD'',
      ''SNOWFLAKE_ACCOUNT'', ''SNOWFLAKE_USERNAME'', ''SNOWFLAKE_PASSWORD'',
      ''SNOWFLAKE_ROLE'', ''SNOWFLAKE_WAREHOUSE'']"

text \<open>Step 1 of \<^verbatim>\<open>main\<close>: the two credentials, then the first missing required variable.\<close>

definition load_env :: "(string \<rightharpoonup> string) \<Rightarrow> world \<Rightarrow> (outcome + string \<times> string) \<times> world" where
  "load_env env w =
     (case env ''AIRBYTE_API_TOKEN'' of
        None \<Rightarrow>
          (Inl (Exit 1),
           report (LineExn [Lit ''[ERROR] Missing required environment variable: '']
                     (KeyError ''AIRBYTE_API_TOKEN'')) w)
      | Some api_token \<Rightarrow>
     (case env ''AIRBYTE_WORKSPACE_ID'' of
        None \<Rightarrow>
          (Inl (Exit 1),
           report (LineExn [Lit ''[ERROR] Missing required environment variable: '']
                     (KeyError ''AIRBYTE_WORKSPACE_ID'')) w)
      | Some ws \<Rightarrow>
     (case find (\<lambda>var. env var = None) required_vars of
        Some var \<Rightarrow>
          (Inl (Exit 1),
           report (Line [Lit ''[ERROR] Missing required environment variable: '',
                         Fmt (PStr var)]) w)
      | None \<Rightarrow> (Inr (api_token, ws), w))))"

text \<open>Step 2: load the source document, create the source, validate it.\<close>

definition setup_source :: "client \<Rightarrow> http \<Rightarrow> (string \<Rightarrow> loaded) \<Rightarrow> world \<Rightarrow> (outcome + pyval) \<times> world" where
  "setup_source c net docs w =
     (case load_and_render_yaml docs ''configs/mssql_source.yaml'' w of
        (Inl out, w1) \<Rightarrow> (Inl out, w1)
      | (Inr mssql_cfg, w1) \<Rightarrow>
     (case (case py_getitem mssql_cfg ''name'' of
              Inl e \<Rightarrow> Inl e
            | Inr src_name \<Rightarrow>
           (case py_getitem mssql_cfg ''definitionId'' of
              Inl e \<Rightarrow> Inl e
            | Inr src_def_id \<Rightarrow>
           (case py_getitem mssql_cfg ''connectionConfiguration'' of
              Inl e \<Rightarrow> Inl e
            | Inr src_conn_cfg \<Rightarrow> Inr (src_name, src_def_id, src_conn_cfg)))) of
        Inl e \<Rightarrow>
          (case except_KeyError [Lit ''[ERROR] mssql_source.yaml missing key: ''] e w1 of
             (out, w2) \<Rightarrow> (Inl out, w2))
      | Inr (src_name, src_def_id, src_conn_cfg) \<Rightarrow>
     (case create_source c net src_name src_def_id src_conn_cfg (api_calls w1) of
        (Inl e, calls2) \<Rightarrow>
          (case except_AirbyteAPIError [Lit ''[ERROR] Failed to create MSSQL source: ''] e
                  (w1\<lparr>api_calls := calls2\<rparr>) of
             (out, w2) \<Rightarrow> (Inl out, w2))
      | (Inr source_id, calls2) \<Rightarrow>
     (case check_source c net source_id calls2 of
        (Inl e, calls3) \<Rightarrow> (Inl (Uncaught e), w1\<lparr>api_calls := calls3\<rparr>)
      | (Inr valid, calls3) \<Rightarrow>
          if \<not> valid then
            (Inl (Exit 1),
             report (Line [Lit ''[ERROR] MSSQL source check failed.''])
               (w1\<lparr>api_calls := calls3\<rparr>))
          else (Inr source_id, w1\<lparr>api_calls := calls3\<rparr>)))))"

text \<open>Step 3: the same for the destination.\<close>

definition setup_destination :: "client \<Rightarrow> http \<Rightarrow> (string \<Rightarrow> loaded) \<Rightarrow> world \<Rightarrow> (outcome + pyval) \<times> world" where
  "setup_destination c net docs w =
     (case load_and_render_yaml docs ''configs/snowflake_destination.yaml'' w of
        (Inl out, w1) \<Rightarrow> (Inl out, w1)
      | (Inr snow_cfg, w1) \<Rightarrow>
     (case (case py_getitem snow_cfg ''name'' of
              Inl e \<Rightarrow> Inl e
            | Inr dst_name \<Rightarrow>
           (case py_getitem snow_cfg ''definitionId'' of
              Inl e \<Rightarrow> Inl e
            | Inr dst_def_id \<Rightarrow>
           (case py_getitem snow_cfg ''connectionConfiguration'' of
              Inl e \<Rightarrow> Inl e
            | Inr dst_conn_cfg \<Rightarrow> Inr (dst_name, dst_def_id, dst_conn_cfg)))) of
        Inl e \<Rightarrow>
          (case except_KeyError [Lit ''[ERROR] snowflake_destination.yaml missing key: ''] e w1 of
             (out, w2) \<Rightarrow> (Inl out, w2))
      | Inr (dst_name, dst_def_id, dst_conn_cfg) \<Rightarrow>
     (case create_destination c net dst_name dst_def_id dst_conn_cfg (api_calls w1) of
        (Inl e, calls2) \<Rightarrow>
          (case except_AirbyteAPIError [Lit ''[ERROR] Failed to create Snowflake destination: ''] e
                  (w1\<lparr>api_calls := calls2\<rparr>) of
             (out, w2) \<Rightarrow> (Inl out, w2))
      | (Inr destination_id, calls2) \<Rightarrow>
     (case check_destination c net destination_id calls2 of
        (Inl e, calls3) \<Rightarrow> (Inl (Uncaught e), w1\<lparr>api_calls := calls3\<rparr>)
      | (Inr valid, calls3) \<Rightarrow>
          if \<not> valid then
            (Inl (Exit 1),
             report (Line [Lit ''[ERROR] Snowflake destination check failed.''])
               (w1\<lparr>api_calls := calls3\<rparr>))
          else (Inr destination_id, w1\<lparr>api_calls := calls3\<rparr>)))))"

text \<open>The \<^verbatim>\<open>tables\<close> entry as the list of strings the builder is annotated with.\<close>

fun as_str :: "pyval \<Rightarrow> string option" where
  "as_str (PStr s) = Some s"
| "as_str _ = None"

fun as_str_list :: "pyval \<Rightarrow> string list option" where
  "as_str_list (PList xs) =
     (if list_all (\<lambda>x. as_str x \<noteq> None) xs then Some (map (\<lambda>x. the (as_str x)) xs) else None)"
| "as_str_list _ = None"

text \<open>Step 4: load the connection document, build the catalog, create the connection.\<close>

definition setup_connection :: "client \<Rightarrow> http \<Rightarrow> (string \<Rightarrow> loaded) \<Rightarrow> pyval \<Rightarrow> pyval \<Rightarrow> world \<Rightarrow> (outcome + pyval) \<times> world" where
  "setup_connection c net docs source_id destination_id w =
     (case load_and_render_yaml docs ''configs/connection.yaml'' w of
        (Inl out, w1) \<Rightarrow> (Inl out, w1)
      | (Inr conn_cfg, w1) \<Rightarrow>
     (case (case py_getitem conn_cfg ''name'' of
              Inl e \<Rightarrow> Inl e
            | Inr conn_name \<Rightarrow>
           (case py_get conn_cfg ''namespaceFormat'' (PStr ''${SOURCE_NAMESPACE}'') of
              Inl e \<Rightarrow> Inl e
            | Inr namespace_format \<Rightarrow>
           (case py_getitem conn_cfg ''schedule'' of
              Inl e \<Rightarrow> Inl e
            | Inr schedule \<Rightarrow>
           (case py_getitem conn_cfg ''tables'' of
              Inl e \<Rightarrow> Inl e
            | Inr tables \<Rightarrow>
           (case py_getitem conn_cfg ''syncMode'' of
              Inl e \<Rightarrow> Inl e
            | Inr sync_mode \<Rightarrow>
           (case py_getitem conn_cfg ''destinationSyncMode'' of
              Inl e \<Rightarrow> Inl e
            | Inr dest_sync_mode \<Rightarrow>
           (case py_get conn_cfg ''autoPropagateSchema'' (PBool True) of
              Inl e \<Rightarrow> Inl e
            | Inr auto_propagate \<Rightarrow>
                Inr (conn_name, namespace_format, schedule, tables, sync_mode,
                     dest_sync_mode, auto_propagate)))))))) of
        Inl e \<Rightarrow>
          (case except_KeyError [Lit ''[ERROR] connection.yaml missing key: ''] e w1 of
             (out, w2) \<Rightarrow> (Inl out, w2))
      | Inr (conn_name, namespace_format, schedule, tables, sync_mode, dest_sync_mode,
             auto_propagate) \<Rightarrow>
     (case as_str_list tables of
        None \<Rightarrow> (Inl Ill_Typed, w1)
      | Some table_names \<Rightarrow>
     (case build_sync_catalog c net source_id ''LoanDataServices'' ''dbo'' table_names
             sync_mode dest_sync_mode (api_calls w1) of
        (Inl e, calls2) \<Rightarrow>
          (case except_Exception [Lit ''[ERROR] build_sync_catalog failed: ''] e
                  (w1\<lparr>api_calls := calls2\<rparr>) of
             (out, w2) \<Rightarrow> (Inl out, w2))
      | (Inr sync_catalog, calls2) \<Rightarrow>
     (case create_connection c net conn_name source_id destination_id namespace_format
             schedule sync_catalog auto_propagate (PStr ''active'') calls2 of
        (Inl e, calls3) \<Rightarrow>
          (case except_AirbyteAPIError [Lit ''[ERROR] Failed to create connection: ''] e
                  (w1\<lparr>api_calls := calls3\<rparr>) of
             (out, w2) \<Rightarrow> (Inl out, w2))
      | (Inr connection_id, calls3) \<Rightarrow> (Inr connection_id, w1\<lparr>api_calls := calls3\<rparr>))))))"

text \<open>The whole run, from an empty record of calls and messages.\<close>

definition main :: "(string \<rightharpoonup> string) \<Rightarrow> (string \<Rightarrow> loaded) \<Rightarrow> http \<Rightarrow> outcome \<times> world" where
  "main env docs net =
     (case load_env env \<lparr>api_calls = [], err_lines = []\<rparr> of
        (Inl out, w1) \<Rightarrow> (out, w1)
      | (Inr (api_token, ws), w1) \<Rightarrow>
          let c = AirbyteClient ''https://api.airbyte.com/v1'' api_token ws in
     (case setup_source c net docs w1 of
        (Inl out, w2) \<Rightarrow> (out, w2)
      | (Inr source_id, w2) \<Rightarrow>
     (case setup_destination c net docs w2 of
        (Inl out, w3) \<Rightarrow> (out, w3)
      | (Inr destination_id, w3) \<Rightarrow>
     (case setup_connection c net docs source_id destination_id w3 of
        (Inl out, w4) \<Rightarrow> (out, w4)
      | (Inr connection_id, w4) \<Rightarrow> (Exit 0, w4)))))"

section \<open>Example data\<close>

text \<open>A client, a discovered stream entry as the platform returns it, a discovery
  response listing streams of given names, and an environment with every variable set.\<close>

definition example_client :: client where
  "example_client = AirbyteClient ''http://h/'' ''t'' ''w''"

definition example_stream :: "string \<Rightarrow> pyval" where
  "example_stream n =
     PDict [(''stream'',
             PDict [(''name'', PStr n),
                    (''jsonSchema'', PDict [(''type'', PStr ''object'')]),
                    (''supportedSyncModes'', PList [PStr ''full_refresh'', PStr ''incremental'']),
                    (''sourceDefinedPrimaryKey'', PList [PList [PStr ''id'']])]),
            (''config'', PDict [])]"

definition example_discovery :: "string list \<Rightarrow> response" where
  "example_discovery names =
     \<lparr>status_code = 200, ok = True,
      body = Json (PDict [(''streams'', PList (map example_stream names))])\<rparr>"

definition example_env :: "string \<rightharpoonup> string" where
  "example_env = (\<lambda>var. Some ''x'')"

text \<open>A source document with its three keys, a set of documents in which only the source
  document is complete (the other two are empty mappings), and a successful response that
  serves source creation and validation.\<close>

definition example_source_doc :: pyval where
  "example_source_doc =
     PDict [(''name'', PStr ''mssql''), (''definitionId'', PStr ''def-1''),
            (''connectionConfiguration'', PDict [(''host'', PStr ''x'')])]"

definition example_docs :: "string \<Rightarrow> loaded" where
  "example_docs path =
     (if path = ''configs/mssql_source.yaml'' then Parsed example_source_doc
      else Parsed (PDict []))"

definition example_ok :: response where
  "example_ok = \<lparr>status_code = 200, ok = True,
       body = Json (PDict [(''sourceId'', PStr ''src-1''), (''status'', PStr ''succeeded'')])\<rparr>"

text \<open>Documents in which the source and the destination document are complete and the
  connection document has only a name, and a successful response that serves both
  creations and both validations.\<close>

definition example_docs_two :: "string \<Rightarrow> loaded" where
  "example_docs_two path =
     (if path = ''configs/connection.yaml'' then Parsed (PDict [(''name'', PStr ''cdc'')])
      else Parsed example_source_doc)"

definition example_ok_two :: response where
  "example_ok_two = \<lparr>status_code = 200, ok = True,
       body = Json (PDict [(''sourceId'', PStr ''src-1''), (''destinationId'', PStr ''dst-1''),
                           (''status'', PStr ''succeeded'')])\<rparr>"

section \<open>Properties of the client\<close>

text \<open>
  C9. Whenever the body of a response does not decode as JSON, the call raises
  AirbyteAPIError with a message made of the full URL and the raw body text, whatever
  the HTTP status is. This holds for both request helpers.
\<close>

theorem C9_non_json_body_raises:
  assumes "body resp = NotJson text"
  shows "fst (post c (\<lambda>_. Inr resp) path payload calls) =
           Inl (AirbyteAPIError
                  [Lit ''Non-JSON response from '', Fmt (PStr (api_url c @ path)),
                   Lit '': '', Fmt (PStr text)])
       \<and> fst (get c (\<lambda>_. Inr resp) path ps calls) =
           Inl (AirbyteAPIError
                  [Lit ''Non-JSON response from '', Fmt (PStr (api_url c @ path)),
                   Lit '': '', Fmt (PStr text)])"
  using assms by (simp add: post_def get_def handle_response_def Let_def)

theorem C9_non_json_body_raises_witness:
  "body \<lparr>status_code = 200, ok = True, body = NotJson ''<html>''\<rparr> = NotJson ''<html>''
   \<and> fst (post example_client
            (\<lambda>_. Inr \<lparr>status_code = 200, ok = True, body = NotJson ''<html>''\<rparr>)
            ''/p'' PNone []) =
       Inl (AirbyteAPIError
              [Lit ''Non-JSON response from '', Fmt (PStr ''http://h/p''),
               Lit '': '', Fmt (PStr ''<html>'')])"
  using C9_non_json_body_raises
          [of "\<lparr>status_code = 200, ok = True, body = NotJson ''<html>''\<rparr>" "''<html>''"
              example_client "''/p''" PNone "[]"]
  by (simp add: example_client_def AirbyteClient_def rstrip_slash_def)

text \<open>
  C3, as stated, fails: a response with status 500 whose body is not JSON raises
  AirbyteAPIError with the non-JSON message, which holds neither the method nor the
  status code, because the body is decoded before the status is looked at.
\<close>

theorem C3_counterexample_non_json_500:
  "fst (post example_client
          (\<lambda>_. Inr \<lparr>status_code = 500, ok = False, body = NotJson ''oops''\<rparr>)
          ''/p'' PNone []) =
     Inl (AirbyteAPIError
            [Lit ''Non-JSON response from '', Fmt (PStr ''http://h/p''),
             Lit '': '', Fmt (PStr ''oops'')])
   \<and> Fmt (PInt 500) \<notin> set [Lit ''Non-JSON response from '', Fmt (PStr ''http://h/p''),
                               Lit '': '', Fmt (PStr ''oops'')]"
  by (simp add: post_def handle_response_def example_client_def AirbyteClient_def
        rstrip_slash_def Let_def)

text \<open>
  C3, amended. For every response that the library does not count as a success and
  whose body decodes to a JSON object, the call raises AirbyteAPIError, and the message
  consists of the method, the path, the status code and then the object's
  \<^verbatim>\<open>message\<close> entry when that is present and truthy, the whole object otherwise.
\<close>

theorem C3_error_status_raises:
  assumes "body resp = Json (PDict d)" and "\<not> ok resp"
  shows "fst (post c (\<lambda>_. Inr resp) path payload calls) =
           Inl (AirbyteAPIError
                  [Lit ''Airbyte API POST '', Fmt (PStr path),
                   Lit ('' '' @ arrow @ '' HTTP ''), Fmt (PInt (status_code resp)), Lit '': '',
                   Fmt (case map_of d ''message'' of
                          Some m \<Rightarrow> if truthy m then m else PDict d
                        | None \<Rightarrow> PDict d)])
       \<and> fst (get c (\<lambda>_. Inr resp) path ps calls) =
           Inl (AirbyteAPIError
                  [Lit ''Airbyte API GET '', Fmt (PStr path),
                   Lit ('' '' @ arrow @ '' HTTP ''), Fmt (PInt (status_code resp)), Lit '': '',
                   Fmt (case map_of d ''message'' of
                          Some m \<Rightarrow> if truthy m then m else PDict d
                        | None \<Rightarrow> PDict d)])"
  using assms by (simp add: post_def get_def handle_response_def Let_def split: option.splits)

theorem C3_error_status_raises_witness:
  "body \<lparr>status_code = 404, ok = False, body = Json (PDict [(''message'', PStr ''gone'')])\<rparr>
     = Json (PDict [(''message'', PStr ''gone'')])
   \<and> \<not> ok \<lparr>status_code = 404, ok = False,
              body = Json (PDict [(''message'', PStr ''gone'')])\<rparr>
   \<and> fst (post example_client
            (\<lambda>_. Inr \<lparr>status_code = 404, ok = False,
                        body = Json (PDict [(''message'', PStr ''gone'')])\<rparr>)
            ''/p'' PNone []) =
       Inl (AirbyteAPIError
              [Lit ''Airbyte API POST '', Fmt (PStr ''/p''),
               Lit ('' '' @ arrow @ '' HTTP ''), Fmt (PInt 404), Lit '': '',
               Fmt (PStr ''gone'')])"
  using C3_error_status_raises
          [of "\<lparr>status_code = 404, ok = False,
                body = Json (PDict [(''message'', PStr ''gone'')])\<rparr>"
              "[(''message'', PStr ''gone'')]" example_client "''/p''" PNone "[]"]
  by simp

text \<open>
  C5, as stated, fails: a successful response whose body is the JSON array \<^verbatim>\<open>[]\<close> makes
  both check calls raise AttributeError, since a list has no \<^verbatim>\<open>get\<close>.
\<close>

theorem C5_counterexample_json_array:
  "fst (check_source example_client
          (\<lambda>_. Inr \<lparr>status_code = 200, ok = True, body = Json (PList [])\<rparr>)
          (PStr ''src-1'') []) = Inl AttributeError
   \<and> fst (check_destination example_client
          (\<lambda>_. Inr \<lparr>status_code = 200, ok = True, body = Json (PList [])\<rparr>)
          (PStr ''dst-1'') []) = Inl AttributeError"
  by (simp add: check_source_def check_destination_def post_def handle_response_def Let_def)

text \<open>
  C5, amended. For every successful response whose body decodes to a JSON object,
  \<open>check_source\<close> and \<open>check_destination\<close> return normally, and the value is true
  exactly when the object's \<^verbatim>\<open>status\<close> entry is the string \<^verbatim>\<open>succeeded\<close>; any other
  entry, and a missing one, gives false.
\<close>

theorem C5_check_true_iff_succeeded:
  assumes "body resp = Json (PDict d)" and "ok resp"
  shows "fst (check_source c (\<lambda>_. Inr resp) source_id calls) =
           Inr (map_of d ''status'' = Some (PStr ''succeeded''))
       \<and> fst (check_destination c (\<lambda>_. Inr resp) destination_id calls) =
           Inr (map_of d ''status'' = Some (PStr ''succeeded''))"
  using assms
  by (auto simp add: check_source_def check_destination_def post_def handle_response_def
        Let_def split: option.splits)

theorem C5_check_true_iff_succeeded_witness:
  "body \<lparr>status_code = 200, ok = True, body = Json (PDict [(''status'', PStr ''failed'')])\<rparr>
     = Json (PDict [(''status'', PStr ''failed'')])
   \<and> ok \<lparr>status_code = 200, ok = True, body = Json (PDict [(''status'', PStr ''failed'')])\<rparr>
   \<and> fst (check_source example_client
            (\<lambda>_. Inr \<lparr>status_code = 200, ok = True,
                        body = Json (PDict [(''status'', PStr ''failed'')])\<rparr>)
            (PStr ''src-1'') []) = Inr False
   \<and> fst (check_destination example_client
            (\<lambda>_. Inr \<lparr>status_code = 200, ok = True,
                        body = Json (PDict [(''status'', PStr ''failed'')])\<rparr>)
            (PStr ''dst-1'') []) = Inr False"
  using C5_check_true_iff_succeeded
          [of "\<lparr>status_code = 200, ok = True,
                body = Json (PDict [(''status'', PStr ''failed'')])\<rparr>"
              "[(''status'', PStr ''failed'')]" example_client "PStr ''src-1''" "[]"
              "PStr ''dst-1''"]
  by simp

text \<open>
  C8. The request that \<open>discover_schema\<close> sends carries the source id and the connector
  type, and after them one \<^verbatim>\<open>schema\<close> entry exactly when database, schema or tables is
  non-empty; that entry is a single object holding, in this order, those of
  \<^verbatim>\<open>database\<close>, \<^verbatim>\<open>schema\<close> and \<^verbatim>\<open>tables\<close> that were given non-empty, and nothing else.
\<close>

theorem C8_discover_schema_payload:
  "snd (discover_schema c net source_id database schema tables calls) =
     calls @
     [\<lparr>http_method = ''POST'', url = api_url c @ ''/connections/discover_schema'',
       json_body = Some (PDict
         ([(''sourceId'', source_id), (''connectorType'', PStr ''source'')] @
          (if truthy_str database \<or> truthy_str schema \<or> truthy_strs tables then
             [(''schema'', PDict
                ((case database of
                    Some s \<Rightarrow> if s = [] then [] else [(''database'', PStr s)]
                  | None \<Rightarrow> []) @
                 (case schema of
                    Some s \<Rightarrow> if s = [] then [] else [(''schema'', PStr s)]
                  | None \<Rightarrow> []) @
                 (case tables of
                    Some ts \<Rightarrow> if ts = [] then [] else [(''tables'', PList (map PStr ts))]
                  | None \<Rightarrow> [])))]
           else []))),
       params = None, req_headers = headers c, timeout = 60\<rparr>]"
  by (cases database; cases schema; cases tables;
      simp add: discover_schema_def post_def Let_def)

section \<open>Properties of the catalog builder\<close>

text \<open>
  C7. When discovery succeeds and its stream list is empty (or the response has no
  \<^verbatim>\<open>streams\<close> entry, which the code reads as the empty list), \<open>build_sync_catalog\<close>
  fails at once with the "No streams returned" exception naming the requested list. The
  filter loop and the count check after it play no part: whatever the requested tables
  are, the "not discovered" exception of that check is not what comes out.
\<close>

theorem C7_empty_discovery_fails:
  assumes "body resp = Json (PDict d)" and "ok resp"
    and "map_of d ''streams'' = Some (PList []) \<or> map_of d ''streams'' = None"
  shows "fst (build_sync_catalog c (\<lambda>_. Inr resp) source_id database schema tables
                sync_mode dest_sync_mode calls) =
           Inl (PyException
                  [Lit ''No streams returned from discover_schema for tables '',
                   Fmt (PList (map PStr tables))])"
  using assms
  by (auto simp add: build_sync_catalog_def discover_schema_def post_def handle_response_def
        Let_def)

theorem C7_empty_discovery_fails_witness:
  "body (example_discovery []) = Json (PDict [(''streams'', PList [])])
   \<and> ok (example_discovery [])
   \<and> (map_of [(''streams'', PList [])] ''streams'' = Some (PList [])
      \<or> map_of [(''streams'', PList [])] ''streams'' = None)
   \<and> fst (build_sync_catalog example_client (\<lambda>_. Inr (example_discovery []))
            (PStr ''src-1'') ''LoanDataServices'' ''dbo'' [''A'', ''C'']
            (PStr ''incremental'') (PStr ''append_dedup'') []) =
       Inl (PyException
              [Lit ''No streams returned from discover_schema for tables '',
               Fmt (PList [PStr ''A'', PStr ''C''])])"
  using C7_empty_discovery_fails
          [of "example_discovery []" "[(''streams'', PList [])]" example_client
              "PStr ''src-1''" "''LoanDataServices''" "''dbo''" "[''A'', ''C'']"
              "PStr ''incremental''" "PStr ''append_dedup''" "[]"]
  by (simp add: example_discovery_def)

text \<open>
  C4. Let discovery return three well-formed stream entries named A, B and C (B being
  neither A nor C), and let the requested list be [A, C]. Then \<open>build_sync_catalog\<close>
  returns a catalog of exactly two entries, A first and C second as in the discovery
  result. Each entry holds the stream's name, JSON schema and supported sync modes as
  discovered, the caller's sync mode and destination sync mode, and as cursor field
  and primary key the stream's source-defined cursor and primary key (the empty list
  where the stream declares none).
\<close>

theorem C4_filter_keeps_discovery_order:
  assumes "body resp = Json (PDict d)" and "ok resp"
    and "map_of d ''streams'' = Some (PList [PDict ea, PDict eb, PDict ec])"
    and "map_of ea ''stream'' = Some (PDict sa)"
    and "map_of eb ''stream'' = Some (PDict sb)"
    and "map_of ec ''stream'' = Some (PDict sc)"
    and "map_of sa ''name'' = Some (PStr a)"
    and "map_of sb ''name'' = Some (PStr b)"
    and "map_of sc ''name'' = Some (PStr c)"
    and "b \<noteq> a" and "b \<noteq> c"
    and "map_of sa ''jsonSchema'' = Some ja"
    and "map_of sa ''supportedSyncModes'' = Some ma"
    and "map_of sc ''jsonSchema'' = Some jc"
    and "map_of sc ''supportedSyncModes'' = Some mc"
  shows "fst (build_sync_catalog cl (\<lambda>_. Inr resp) source_id database schema [a, c]
                sync_mode dest_sync_mode calls) =
    Inr (PDict [(''streams'', PList
      [PDict [(''stream'', PDict [(''name'', PStr a), (''jsonSchema'', ja),
                                  (''supportedSyncModes'', ma)]),
              (''syncMode'', sync_mode),
              (''destinationSyncMode'', dest_sync_mode),
              (''cursorField'',
                 case map_of sa ''sourceDefinedCursor'' of Some v \<Rightarrow> v | None \<Rightarrow> PList []),
              (''primaryKey'',
                 case map_of sa ''sourceDefinedPrimaryKey'' of Some v \<Rightarrow> v | None \<Rightarrow> PList [])],
       PDict [(''stream'', PDict [(''name'', PStr c), (''jsonSchema'', jc),
                                  (''supportedSyncModes'', mc)]),
              (''syncMode'', sync_mode),
              (''destinationSyncMode'', dest_sync_mode),
              (''cursorField'',
                 case map_of sc ''sourceDefinedCursor'' of Some v \<Rightarrow> v | None \<Rightarrow> PList []),
              (''primaryKey'',
                 case map_of sc ''sourceDefinedPrimaryKey'' of Some v \<Rightarrow> v | None \<Rightarrow> PList [])]])])"
  using assms
  by (simp add: build_sync_catalog_def discover_schema_def post_def handle_response_def
        Let_def)

theorem C4_filter_keeps_discovery_order_witness:
  "body (example_discovery [''A'', ''B'', ''C'']) =
     Json (PDict [(''streams'',
                   PList [example_stream ''A'', example_stream ''B'', example_stream ''C''])])
   \<and> ok (example_discovery [''A'', ''B'', ''C''])
   \<and> ''B'' \<noteq> ''A'' \<and> ''B'' \<noteq> ''C''
   \<and> fst (build_sync_catalog example_client
            (\<lambda>_. Inr (example_discovery [''A'', ''B'', ''C'']))
            (PStr ''src-1'') ''LoanDataServices'' ''dbo'' [''A'', ''C'']
            (PStr ''incremental'') (PStr ''append_dedup'') []) =
       Inr (PDict [(''streams'', PList
         [PDict [(''stream'', PDict [(''name'', PStr ''A''),
                                     (''jsonSchema'', PDict [(''type'', PStr ''object'')]),
                                     (''supportedSyncModes'',
                                        PList [PStr ''full_refresh'', PStr ''incremental''])]),
                 (''syncMode'', PStr ''incremental''),
                 (''destinationSyncMode'', PStr ''append_dedup''),
                 (''cursorField'', PList []),
                 (''primaryKey'', PList [PList [PStr ''id'']])],
          PDict [(''stream'', PDict [(''name'', PStr ''C''),
                                     (''jsonSchema'', PDict [(''type'', PStr ''object'')]),
                                     (''supportedSyncModes'',
                                        PList [PStr ''full_refresh'', PStr ''incremental''])]),
                 (''syncMode'', PStr ''incremental''),
                 (''destinationSyncMode'', PStr ''append_dedup''),
                 (''cursorField'', PList []),
                 (''primaryKey'', PList [PList [PStr ''id'']])]])])"
  using C4_filter_keeps_discovery_order
          [where resp = "example_discovery [''A'', ''B'', ''C'']"
             and d = "[(''streams'',
                        PList [example_stream ''A'', example_stream ''B'', example_stream ''C''])]"
             and ea = "[(''stream'',
                         PDict [(''name'', PStr ''A''),
                                (''jsonSchema'', PDict [(''type'', PStr ''object'')]),
                                (''supportedSyncModes'',
                                   PList [PStr ''full_refresh'', PStr ''incremental'']),
                                (''sourceDefinedPrimaryKey'', PList [PList [PStr ''id'']])]),
                        (''config'', PDict [])]"
             and eb = "[(''stream'',
                         PDict [(''name'', PStr ''B''),
                                (''jsonSchema'', PDict [(''type'', PStr ''object'')]),
                                (''supportedSyncModes'',
                                   PList [PStr ''full_refresh'', PStr ''incremental'']),
                                (''sourceDefinedPrimaryKey'', PList [PList [PStr ''id'']])]),
                        (''config'', PDict [])]"
             and ec = "[(''stream'',
                         PDict [(''name'', PStr ''C''),
                                (''jsonSchema'', PDict [(''type'', PStr ''object'')]),
                                (''supportedSyncModes'',
                                   PList [PStr ''full_refresh'', PStr ''incremental'']),
                                (''sourceDefinedPrimaryKey'', PList [PList [PStr ''id'']])]),
                        (''config'', PDict [])]"
             and sa = "[(''name'', PStr ''A''),
                        (''jsonSchema'', PDict [(''type'', PStr ''object'')]),
                        (''supportedSyncModes'',
                           PList [PStr ''full_refresh'', PStr ''incremental'']),
                        (''sourceDefinedPrimaryKey'', PList [PList [PStr ''id'']])]"
             and sb = "[(''name'', PStr ''B''),
                        (''jsonSchema'', PDict [(''type'', PStr ''object'')]),
                        (''supportedSyncModes'',
                           PList [PStr ''full_refresh'', PStr ''incremental'']),
                        (''sourceDefinedPrimaryKey'', PList [PList [PStr ''id'']])]"
             and sc = "[(''name'', PStr ''C''),
                        (''jsonSchema'', PDict [(''type'', PStr ''object'')]),
                        (''supportedSyncModes'',
                           PList [PStr ''full_refresh'', PStr ''incremental'']),
                        (''sourceDefinedPrimaryKey'', PList [PList [PStr ''id'']])]"
             and a = "''A''" and b = "''B''" and c = "''C''"
             and ja = "PDict [(''type'', PStr ''object'')]"
             and jc = "PDict [(''type'', PStr ''object'')]"
             and ma = "PList [PStr ''full_refresh'', PStr ''incremental'']"
             and mc = "PList [PStr ''full_refresh'', PStr ''incremental'']"
             and cl = example_client and source_id = "PStr ''src-1''"
             and database = "''LoanDataServices''" and schema = "''dbo''"
             and sync_mode = "PStr ''incremental''" and dest_sync_mode = "PStr ''append_dedup''"
             and calls = "[]"]
  by (simp add: example_discovery_def example_stream_def)

text \<open>
  C1 at a discovery result that lists the name A twice (as a platform does for one table
  name in two namespaces), with A and Z requested. The loop keeps both entries, the
  count check compares 2 with 2, and the builder returns: the catalog holds A twice
  and Z not at all. The check was written to catch undiscovered tables, but it counts
  entries instead of comparing names.
\<close>

theorem C1_duplicate_discovery_evaluation:
  "fst (build_sync_catalog example_client (\<lambda>_. Inr (example_discovery [''A'', ''A'']))
          (PStr ''src-1'') ''LoanDataServices'' ''dbo'' [''A'', ''Z'']
          (PStr ''incremental'') (PStr ''append_dedup'') []) =
     Inr (PDict [(''streams'', PList
       [PDict [(''stream'', PDict [(''name'', PStr ''A''),
                                   (''jsonSchema'', PDict [(''type'', PStr ''object'')]),
                                   (''supportedSyncModes'',
                                      PList [PStr ''full_refresh'', PStr ''incremental''])]),
               (''syncMode'', PStr ''incremental''),
               (''destinationSyncMode'', PStr ''append_dedup''),
               (''cursorField'', PList []),
               (''primaryKey'', PList [PList [PStr ''id'']])],
        PDict [(''stream'', PDict [(''name'', PStr ''A''),
                                   (''jsonSchema'', PDict [(''type'', PStr ''object'')]),
                                   (''supportedSyncModes'',
                                      PList [PStr ''full_refresh'', PStr ''incremental''])]),
               (''syncMode'', PStr ''incremental''),
               (''destinationSyncMode'', PStr ''append_dedup''),
               (''cursorField'', PList []),
               (''primaryKey'', PList [PList [PStr ''id'']])]])])"
  by (simp add: build_sync_catalog_def discover_schema_def post_def handle_response_def
        Let_def example_discovery_def example_stream_def)

text \<open>
  C6 at the same input: Z is requested and absent from the discovery result, yet no
  exception is raised, so no error names Z. With distinct discovered names the same
  request is rejected as the claim says, which the second equation shows.
\<close>

theorem C6_missing_table_not_reported_evaluation:
  "\<not> isl (fst (build_sync_catalog example_client
                  (\<lambda>_. Inr (example_discovery [''A'', ''A'']))
                  (PStr ''src-1'') ''LoanDataServices'' ''dbo'' [''A'', ''Z'']
                  (PStr ''incremental'') (PStr ''append_dedup'') []))
   \<and> fst (build_sync_catalog example_client
            (\<lambda>_. Inr (example_discovery [''A'', ''B'']))
            (PStr ''src-1'') ''LoanDataServices'' ''dbo'' [''A'', ''Z'']
            (PStr ''incremental'') (PStr ''append_dedup'') []) =
       Inl (PyException [Lit ''Some tables were not discovered: '', FmtSet {''Z''}])"
  by (simp add: build_sync_catalog_def discover_schema_def post_def handle_response_def
        Let_def example_discovery_def example_stream_def)

section \<open>Properties of the orchestrator\<close>

text \<open>Step 1 either yields the two credentials or reports one missing variable; it never
  touches the network.\<close>

lemma load_env_complete:
  assumes "env ''AIRBYTE_API_TOKEN'' = Some tok" and "env ''AIRBYTE_WORKSPACE_ID'' = Some ws"
    and "\<forall>var \<in> set required_vars. env var \<noteq> None"
  shows "load_env env w = (Inr (tok, ws), w)"
proof -
  have "find (\<lambda>var. env var = None) required_vars = None"
    using assms(3) by (simp add: find_None_iff)
  then show ?thesis using assms(1,2) by (simp add: load_env_def)
qed

lemma load_env_incomplete:
  assumes "env ''AIRBYTE_API_TOKEN'' = None \<or> env ''AIRBYTE_WORKSPACE_ID'' = None
           \<or> (\<exists>var \<in> set required_vars. env var = None)"
  shows "fst (load_env env w) = Inl (Exit 1) \<and> api_calls (snd (load_env env w)) = api_calls w
     \<and> length (err_lines (snd (load_env env w))) = Suc (length (err_lines w))"
proof (cases "env ''AIRBYTE_API_TOKEN''")
  case None then show ?thesis by (simp add: load_env_def report_def)
next
  case (Some tok)
  show ?thesis
  proof (cases "env ''AIRBYTE_WORKSPACE_ID''")
    case None then show ?thesis using Some by (simp add: load_env_def report_def)
  next
    case ws: (Some ws)
    from assms Some ws have "\<exists>var \<in> set required_vars. env var = None" by simp
    then have "find (\<lambda>var. env var = None) required_vars \<noteq> None"
      by (auto simp add: find_None_iff)
    then obtain v where "find (\<lambda>var. env var = None) required_vars = Some v" by auto
    then show ?thesis using Some ws by (simp add: load_env_def report_def)
  qed
qed


lemma setup_source_missing_key:
  assumes "docs ''configs/mssql_source.yaml'' = Parsed (PDict cfg)"
    and "map_of cfg ''name'' = None \<or> map_of cfg ''definitionId'' = None
         \<or> map_of cfg ''connectionConfiguration'' = None"
  shows "fst (setup_source c net docs w) = Inl (Exit 1)
     \<and> api_calls (snd (setup_source c net docs w)) = api_calls w
     \<and> length (err_lines (snd (setup_source c net docs w))) = Suc (length (err_lines w))"
  using assms
  by (auto simp add: setup_source_def load_and_render_yaml_def except_KeyError_def report_def
        split: option.splits)

lemma main_env_incomplete:
  assumes "env ''AIRBYTE_API_TOKEN'' = None \<or> env ''AIRBYTE_WORKSPACE_ID'' = None
           \<or> (\<exists>var \<in> set required_vars. env var = None)"
  shows "fst (main env docs net) = Exit 1 \<and> api_calls (snd (main env docs net)) = []
     \<and> length (err_lines (snd (main env docs net))) = 1"
  using load_env_incomplete [OF assms, of "\<lparr>api_calls = [], err_lines = []\<rparr>"]
  by (auto simp add: main_def split: prod.splits sum.splits)

lemma main_source_missing_key:
  assumes "env ''AIRBYTE_API_TOKEN'' = Some tok" and "env ''AIRBYTE_WORKSPACE_ID'' = Some ws"
    and "\<forall>var \<in> set required_vars. env var \<noteq> None"
    and "docs ''configs/mssql_source.yaml'' = Parsed (PDict cfg)"
    and "map_of cfg ''name'' = None \<or> map_of cfg ''definitionId'' = None
         \<or> map_of cfg ''connectionConfiguration'' = None"
  shows "fst (main env docs net) = Exit 1 \<and> api_calls (snd (main env docs net)) = []
     \<and> length (err_lines (snd (main env docs net))) = 1"
  using setup_source_missing_key
          [where docs = docs and cfg = cfg and net = net
             and c = "AirbyteClient ''https://api.airbyte.com/v1'' tok ws"
             and w = "\<lparr>api_calls = [], err_lines = []\<rparr>", OF assms(4,5)]
  by (auto simp add: main_def Let_def load_env_complete [OF assms(1,2,3)]
        split: prod.splits sum.splits)

text \<open>A step that completes has made exactly its two calls and reported nothing.\<close>

lemma setup_source_success:
  assumes "fst (setup_source c net docs w) = Inr source_id"
  shows "map url (api_calls (snd (setup_source c net docs w))) =
           map url (api_calls w) @
           [api_url c @ ''/sources/create'', api_url c @ ''/sources/check_connection'']
       \<and> err_lines (snd (setup_source c net docs w)) = err_lines w"
  using assms
  by (auto simp add: setup_source_def load_and_render_yaml_def create_source_def
        check_source_def post_def Let_def except_KeyError_def except_AirbyteAPIError_def
        report_def
        split: loaded.splits sum.splits prod.splits if_splits exn.splits)

lemma setup_destination_success:
  assumes "fst (setup_destination c net docs w) = Inr destination_id"
  shows "map url (api_calls (snd (setup_destination c net docs w))) =
           map url (api_calls w) @
           [api_url c @ ''/destinations/create'',
            api_url c @ ''/destinations/check_connection'']
       \<and> err_lines (snd (setup_destination c net docs w)) = err_lines w"
  using assms
  by (auto simp add: setup_destination_def load_and_render_yaml_def create_destination_def
        check_destination_def post_def Let_def except_KeyError_def except_AirbyteAPIError_def
        report_def
        split: loaded.splits sum.splits prod.splits if_splits exn.splits)

text \<open>A mapping without one of its required keys: the step reports the first missing key
  and exits, leaving the record of calls as it was.\<close>

lemma setup_destination_missing_key_line:
  assumes "docs ''configs/snowflake_destination.yaml'' = Parsed (PDict cfg)"
    and "map_of cfg ''name'' = None \<or> map_of cfg ''definitionId'' = None
         \<or> map_of cfg ''connectionConfiguration'' = None"
  shows "setup_destination c net docs w =
           (Inl (Exit 1),
            report (LineExn [Lit ''[ERROR] snowflake_destination.yaml missing key: '']
                      (KeyError (if map_of cfg ''name'' = None then ''name''
                                 else if map_of cfg ''definitionId'' = None then ''definitionId''
                                 else ''connectionConfiguration''))) w)"
  using assms
  by (auto simp add: setup_destination_def load_and_render_yaml_def except_KeyError_def
        split: option.splits)

lemma setup_connection_missing_key_line:
  assumes "docs ''configs/connection.yaml'' = Parsed (PDict cfg)"
    and "map_of cfg ''name'' = None \<or> map_of cfg ''schedule'' = None
         \<or> map_of cfg ''tables'' = None \<or> map_of cfg ''syncMode'' = None
         \<or> map_of cfg ''destinationSyncMode'' = None"
  shows "setup_connection c net docs source_id destination_id w =
           (Inl (Exit 1),
            report (LineExn [Lit ''[ERROR] connection.yaml missing key: '']
                      (KeyError (if map_of cfg ''name'' = None then ''name''
                                 else if map_of cfg ''schedule'' = None then ''schedule''
                                 else if map_of cfg ''tables'' = None then ''tables''
                                 else if map_of cfg ''syncMode'' = None then ''syncMode''
                                 else ''destinationSyncMode''))) w)"
  using assms
  by (auto simp add: setup_connection_def load_and_render_yaml_def except_KeyError_def
        split: option.splits)

lemma api_url_main_client:
  "api_url (AirbyteClient ''https://api.airbyte.com/v1'' tok ws) = ''https://api.airbyte.com/v1''"
  by (simp add: AirbyteClient_def rstrip_slash_def)

lemma main_destination_missing_key:
  assumes "env ''AIRBYTE_API_TOKEN'' = Some tok" and "env ''AIRBYTE_WORKSPACE_ID'' = Some ws"
    and "\<forall>var \<in> set required_vars. env var \<noteq> None"
    and "fst (setup_source (AirbyteClient ''https://api.airbyte.com/v1'' tok ws) net docs
                \<lparr>api_calls = [], err_lines = []\<rparr>) = Inr source_id"
    and "docs ''configs/snowflake_destination.yaml'' = Parsed (PDict cfg)"
    and "map_of cfg ''name'' = None \<or> map_of cfg ''definitionId'' = None
         \<or> map_of cfg ''connectionConfiguration'' = None"
  shows "fst (main env docs net) = Exit 1
     \<and> map url (api_calls (snd (main env docs net))) =
         [''https://api.airbyte.com/v1/sources/create'',
          ''https://api.airbyte.com/v1/sources/check_connection'']
     \<and> err_lines (snd (main env docs net)) =
         [LineExn [Lit ''[ERROR] snowflake_destination.yaml missing key: '']
            (KeyError (if map_of cfg ''name'' = None then ''name''
                       else if map_of cfg ''definitionId'' = None then ''definitionId''
                       else ''connectionConfiguration''))]"
proof -
  let ?c = "AirbyteClient ''https://api.airbyte.com/v1'' tok ws"
  let ?w0 = "\<lparr>api_calls = [], err_lines = []\<rparr>"
  obtain w2 where s: "setup_source ?c net docs ?w0 = (Inr source_id, w2)"
    using assms(4) by (cases "setup_source ?c net docs ?w0") simp
  have w2: "map url (api_calls w2) =
              [''https://api.airbyte.com/v1/sources/create'',
               ''https://api.airbyte.com/v1/sources/check_connection'']"
           "err_lines w2 = []"
    using setup_source_success [OF assms(4)] s by (simp_all add: api_url_main_client)
  show ?thesis
    using s w2
      setup_destination_missing_key_line
        [where docs = docs and cfg = cfg and c = ?c and net = net and w = w2, OF assms(5,6)]
    by (simp add: main_def Let_def load_env_complete [OF assms(1,2,3)] report_def)
qed

lemma main_connection_missing_key:
  assumes "env ''AIRBYTE_API_TOKEN'' = Some tok" and "env ''AIRBYTE_WORKSPACE_ID'' = Some ws"
    and "\<forall>var \<in> set required_vars. env var \<noteq> None"
    and "fst (setup_source (AirbyteClient ''https://api.airbyte.com/v1'' tok ws) net docs
                \<lparr>api_calls = [], err_lines = []\<rparr>) = Inr source_id"
    and "fst (setup_destination (AirbyteClient ''https://api.airbyte.com/v1'' tok ws) net docs
                (snd (setup_source (AirbyteClient ''https://api.airbyte.com/v1'' tok ws) net
                        docs \<lparr>api_calls = [], err_lines = []\<rparr>))) = Inr destination_id"
    and "docs ''configs/connection.yaml'' = Parsed (PDict cfg)"
    and "map_of cfg ''name'' = None \<or> map_of cfg ''schedule'' = None
         \<or> map_of cfg ''tables'' = None \<or> map_of cfg ''syncMode'' = None
         \<or> map_of cfg ''destinationSyncMode'' = None"
  shows "fst (main env docs net) = Exit 1
     \<and> map url (api_calls (snd (main env docs net))) =
         [''https://api.airbyte.com/v1/sources/create'',
          ''https://api.airbyte.com/v1/sources/check_connection'',
          ''https://api.airbyte.com/v1/destinations/create'',
          ''https://api.airbyte.com/v1/destinations/check_connection'']
     \<and> err_lines (snd (main env docs net)) =
         [LineExn [Lit ''[ERROR] connection.yaml missing key: '']
            (KeyError (if map_of cfg ''name'' = None then ''name''
                       else if map_of cfg ''schedule'' = None then ''schedule''
                       else if map_of cfg ''tables'' = None then ''tables''
                       else if map_of cfg ''syncMode'' = None then ''syncMode''
                       else ''destinationSyncMode''))]"
proof -
  let ?c = "AirbyteClient ''https://api.airbyte.com/v1'' tok ws"
  let ?w0 = "\<lparr>api_calls = [], err_lines = []\<rparr>"
  obtain w2 where s: "setup_source ?c net docs ?w0 = (Inr source_id, w2)"
    using assms(4) by (cases "setup_source ?c net docs ?w0") simp
  have w2: "map url (api_calls w2) =
              [''https://api.airbyte.com/v1/sources/create'',
               ''https://api.airbyte.com/v1/sources/check_connection'']"
           "err_lines w2 = []"
    using setup_source_success [OF assms(4)] s by (simp_all add: api_url_main_client)
  have d': "fst (setup_destination ?c net docs w2) = Inr destination_id"
    using assms(5) s by simp
  obtain w3 where d: "setup_destination ?c net docs w2 = (Inr destination_id, w3)"
    using d' by (cases "setup_destination ?c net docs w2") simp
  have w3: "map url (api_calls w3) =
              [''https://api.airbyte.com/v1/sources/create'',
               ''https://api.airbyte.com/v1/sources/check_connection'',
               ''https://api.airbyte.com/v1/destinations/create'',
               ''https://api.airbyte.com/v1/destinations/check_connection'']"
           "err_lines w3 = []"
    using setup_destination_success [OF d'] d w2 by (simp_all add: api_url_main_client)
  show ?thesis
    using s d w3
      setup_connection_missing_key_line
        [where docs = docs and cfg = cfg and c = ?c and net = net and w = w3
           and source_id = source_id and destination_id = destination_id, OF assms(6,7)]
    by (simp add: main_def Let_def load_env_complete [OF assms(1,2,3)] report_def)
qed


text \<open>A document that is not a mapping has no keys at all, but subscripting it raises
  TypeError, which the handler for KeyError does not catch: nothing is reported.\<close>

lemma main_source_not_mapping:
  assumes "env ''AIRBYTE_API_TOKEN'' = Some tok" and "env ''AIRBYTE_WORKSPACE_ID'' = Some ws"
    and "\<forall>var \<in> set required_vars. env var \<noteq> None"
    and "docs ''configs/mssql_source.yaml'' = Parsed PNone"
  shows "main env docs net = (Uncaught TypeError, \<lparr>api_calls = [], err_lines = []\<rparr>)"
  using assms(4)
  by (simp add: main_def Let_def load_env_complete [OF assms(1,2,3)] setup_source_def
        load_and_render_yaml_def except_KeyError_def)

text \<open>
  C2, as stated, fails: the destination document is loaded only after the source has
  been created and validated. With a complete environment, a complete source document
  and a destination document that lacks \<^verbatim>\<open>name\<close>, the run reports the missing key and
  exits with status 1 after two remote calls.
\<close>

theorem C2_counterexample_destination_doc:
  "fst (main example_env example_docs (\<lambda>_. Inr example_ok)) = Exit 1
   \<and> map url (api_calls (snd (main example_env example_docs (\<lambda>_. Inr example_ok)))) =
       [''https://api.airbyte.com/v1/sources/create'',
        ''https://api.airbyte.com/v1/sources/check_connection'']
   \<and> err_lines (snd (main example_env example_docs (\<lambda>_. Inr example_ok))) =
       [LineExn [Lit ''[ERROR] snowflake_destination.yaml missing key: ''] (KeyError ''name'')]"
  by (simp add: main_def load_env_def example_env_def required_vars_def
        setup_source_def setup_destination_def load_and_render_yaml_def example_docs_def
        example_source_doc_def create_source_def check_source_def post_def
        handle_response_def Let_def example_ok_def except_KeyError_def report_def
        AirbyteClient_def rstrip_slash_def)


text \<open>
  C2, amended. If a required environment variable is absent, or the source document is a
  mapping that lacks one of its three required keys, the run reports one error and exits
  with status 1 before any remote call. If the source step has completed and the
  destination document is a mapping that lacks one of its required keys, the run reports
  that key and exits with status 1 after exactly the two calls of the source step and
  before any call for the destination. If the source and destination steps have
  completed and the connection document is a mapping that lacks one of its required
  keys, the run reports that key and exits with status 1 after exactly the four calls of
  the two earlier steps, before discovery and connection creation.
\<close>

theorem C2_config_error_aborts:
  "((env ''AIRBYTE_API_TOKEN'' = None \<or> env ''AIRBYTE_WORKSPACE_ID'' = None
      \<or> (\<exists>var \<in> set required_vars. env var = None)
      \<or> (docs ''configs/mssql_source.yaml'' = Parsed (PDict cfg)
          \<and> (map_of cfg ''name'' = None \<or> map_of cfg ''definitionId'' = None
              \<or> map_of cfg ''connectionConfiguration'' = None)))
     \<longrightarrow> fst (main env docs net) = Exit 1
         \<and> api_calls (snd (main env docs net)) = []
         \<and> length (err_lines (snd (main env docs net))) = 1)
   \<and> ((env ''AIRBYTE_API_TOKEN'' = Some tok \<and> env ''AIRBYTE_WORKSPACE_ID'' = Some ws
       \<and> (\<forall>var \<in> set required_vars. env var \<noteq> None)
       \<and> fst (setup_source (AirbyteClient ''https://api.airbyte.com/v1'' tok ws) net docs
                 \<lparr>api_calls = [], err_lines = []\<rparr>) = Inr source_id
       \<and> docs ''configs/snowflake_destination.yaml'' = Parsed (PDict cfg2)
       \<and> (map_of cfg2 ''name'' = None \<or> map_of cfg2 ''definitionId'' = None
           \<or> map_of cfg2 ''connectionConfiguration'' = None))
     \<longrightarrow> fst (main env docs net) = Exit 1
         \<and> map url (api_calls (snd (main env docs net))) =
             [''https://api.airbyte.com/v1/sources/create'',
              ''https://api.airbyte.com/v1/sources/check_connection'']
         \<and> err_lines (snd (main env docs net)) =
             [LineExn [Lit ''[ERROR] snowflake_destination.yaml missing key: '']
                (KeyError (if map_of cfg2 ''name'' = None then ''name''
                           else if map_of cfg2 ''definitionId'' = None then ''definitionId''
                           else ''connectionConfiguration''))])
   \<and> ((env ''AIRBYTE_API_TOKEN'' = Some tok \<and> env ''AIRBYTE_WORKSPACE_ID'' = Some ws
       \<and> (\<forall>var \<in> set required_vars. env var \<noteq> None)
       \<and> fst (setup_source (AirbyteClient ''https://api.airbyte.com/v1'' tok ws) net docs
                 \<lparr>api_calls = [], err_lines = []\<rparr>) = Inr source_id
       \<and> fst (setup_destination (AirbyteClient ''https://api.airbyte.com/v1'' tok ws) net docs
                 (snd (setup_source (AirbyteClient ''https://api.airbyte.com/v1'' tok ws) net
                         docs \<lparr>api_calls = [], err_lines = []\<rparr>))) = Inr destination_id
       \<and> docs ''configs/connection.yaml'' = Parsed (PDict cfg3)
       \<and> (map_of cfg3 ''name'' = None \<or> map_of cfg3 ''schedule'' = None
           \<or> map_of cfg3 ''tables'' = None \<or> map_of cfg3 ''syncMode'' = None
           \<or> map_of cfg3 ''destinationSyncMode'' = None))
     \<longrightarrow> fst (main env docs net) = Exit 1
         \<and> map url (api_calls (snd (main env docs net))) =
             [''https://api.airbyte.com/v1/sources/create'',
              ''https://api.airbyte.com/v1/sources/check_connection'',
              ''https://api.airbyte.com/v1/destinations/create'',
              ''https://api.airbyte.com/v1/destinations/check_connection'']
         \<and> err_lines (snd (main env docs net)) =
             [LineExn [Lit ''[ERROR] connection.yaml missing key: '']
                (KeyError (if map_of cfg3 ''name'' = None then ''name''
                           else if map_of cfg3 ''schedule'' = None then ''schedule''
                           else if map_of cfg3 ''tables'' = None then ''tables''
                           else if map_of cfg3 ''syncMode'' = None then ''syncMode''
                           else ''destinationSyncMode''))])"
  (is "?SRC \<and> ?DST \<and> ?CON")
proof -
  have src: ?SRC
  proof
    assume h: "env ''AIRBYTE_API_TOKEN'' = None \<or> env ''AIRBYTE_WORKSPACE_ID'' = None
      \<or> (\<exists>var \<in> set required_vars. env var = None)
      \<or> (docs ''configs/mssql_source.yaml'' = Parsed (PDict cfg)
          \<and> (map_of cfg ''name'' = None \<or> map_of cfg ''definitionId'' = None
              \<or> map_of cfg ''connectionConfiguration'' = None))"
    show "fst (main env docs net) = Exit 1
         \<and> api_calls (snd (main env docs net)) = []
         \<and> length (err_lines (snd (main env docs net))) = 1"
    proof (cases "env ''AIRBYTE_API_TOKEN'' = None \<or> env ''AIRBYTE_WORKSPACE_ID'' = None
             \<or> (\<exists>var \<in> set required_vars. env var = None)")
      case True
      then show ?thesis by (rule main_env_incomplete)
    next
      case False
      then obtain tok' ws' where e: "env ''AIRBYTE_API_TOKEN'' = Some tok'"
          "env ''AIRBYTE_WORKSPACE_ID'' = Some ws'"
          "\<forall>var \<in> set required_vars. env var \<noteq> None"
        by auto
      from h False have d: "docs ''configs/mssql_source.yaml'' = Parsed (PDict cfg)"
        by auto
      from h False have k: "map_of cfg ''name'' = None \<or> map_of cfg ''definitionId'' = None
                \<or> map_of cfg ''connectionConfiguration'' = None"
        by auto
      show ?thesis
        by (rule main_source_missing_key
                   [where env = env and docs = docs and cfg = cfg, OF e d k])
    qed
  qed
  have dst: ?DST
    using main_destination_missing_key
            [where env = env and docs = docs and net = net and cfg = cfg2 and tok = tok
               and ws = ws and source_id = source_id]
    by blast
  have con: ?CON
    using main_connection_missing_key
            [where env = env and docs = docs and net = net and cfg = cfg3 and tok = tok
               and ws = ws and source_id = source_id and destination_id = destination_id]
    by blast
  show ?thesis by (rule conjI [OF src conjI [OF dst con]])
qed

theorem C2_config_error_aborts_witness:
  "Map.empty ''AIRBYTE_API_TOKEN'' = (None :: string option)
   \<and> fst (main Map.empty example_docs (\<lambda>_. Inr example_ok)) = Exit 1
   \<and> api_calls (snd (main Map.empty example_docs (\<lambda>_. Inr example_ok))) = []
   \<and> length (err_lines (snd (main Map.empty example_docs (\<lambda>_. Inr example_ok)))) = 1
   \<and> fst (main example_env (\<lambda>_. Parsed (PDict [])) (\<lambda>_. Inr example_ok)) = Exit 1
   \<and> api_calls (snd (main example_env (\<lambda>_. Parsed (PDict [])) (\<lambda>_. Inr example_ok))) = []
   \<and> fst (setup_source (AirbyteClient ''https://api.airbyte.com/v1'' ''x'' ''x'')
            (\<lambda>_. Inr example_ok) example_docs \<lparr>api_calls = [], err_lines = []\<rparr>)
       = Inr (PStr ''src-1'')
   \<and> fst (main example_env example_docs (\<lambda>_. Inr example_ok)) = Exit 1
   \<and> err_lines (snd (main example_env example_docs (\<lambda>_. Inr example_ok))) =
       [LineExn [Lit ''[ERROR] snowflake_destination.yaml missing key: ''] (KeyError ''name'')]
   \<and> fst (main example_env example_docs_two (\<lambda>_. Inr example_ok_two)) = Exit 1
   \<and> map url (api_calls (snd (main example_env example_docs_two (\<lambda>_. Inr example_ok_two)))) =
       [''https://api.airbyte.com/v1/sources/create'',
        ''https://api.airbyte.com/v1/sources/check_connection'',
        ''https://api.airbyte.com/v1/destinations/create'',
        ''https://api.airbyte.com/v1/destinations/check_connection'']
   \<and> err_lines (snd (main example_env example_docs_two (\<lambda>_. Inr example_ok_two))) =
       [LineExn [Lit ''[ERROR] connection.yaml missing key: ''] (KeyError ''schedule'')]"
proof -
  have s1: "fst (setup_source (AirbyteClient ''https://api.airbyte.com/v1'' ''x'' ''x'')
            (\<lambda>_. Inr example_ok) example_docs \<lparr>api_calls = [], err_lines = []\<rparr>)
       = Inr (PStr ''src-1'')"
    by (simp add: setup_source_def load_and_render_yaml_def example_docs_def
          example_source_doc_def create_source_def check_source_def post_def
          handle_response_def Let_def example_ok_def)
  have s2: "setup_source (AirbyteClient ''https://api.airbyte.com/v1'' ''x'' ''x'')
            (\<lambda>_. Inr example_ok_two) example_docs_two \<lparr>api_calls = [], err_lines = []\<rparr>
       = (Inr (PStr ''src-1''),
          \<lparr>api_calls =
             [\<lparr>http_method = ''POST'', url = ''https://api.airbyte.com/v1/sources/create'',
               json_body = Some (PDict [(''name'', PStr ''mssql''),
                                        (''sourceDefinitionId'', PStr ''def-1''),
                                        (''workspaceId'', PStr ''x''),
                                        (''connectionConfiguration'',
                                           PDict [(''host'', PStr ''x'')])]),
               params = None,
               req_headers = [(''Authorization'', ''Bearer x''),
                              (''Content-Type'', ''application/json'')],
               timeout = 60\<rparr>,
              \<lparr>http_method = ''POST'',
               url = ''https://api.airbyte.com/v1/sources/check_connection'',
               json_body = Some (PDict [(''sourceId'', PStr ''src-1'')]),
               params = None,
               req_headers = [(''Authorization'', ''Bearer x''),
                              (''Content-Type'', ''application/json'')],
               timeout = 60\<rparr>],
            err_lines = []\<rparr>)"
    by (simp add: setup_source_def load_and_render_yaml_def example_docs_two_def
          example_source_doc_def create_source_def check_source_def post_def
          handle_response_def Let_def example_ok_two_def AirbyteClient_def rstrip_slash_def)
  have d2: "fst (setup_destination (AirbyteClient ''https://api.airbyte.com/v1'' ''x'' ''x'')
            (\<lambda>_. Inr example_ok_two) example_docs_two
            (snd (setup_source (AirbyteClient ''https://api.airbyte.com/v1'' ''x'' ''x'')
                    (\<lambda>_. Inr example_ok_two) example_docs_two
                    \<lparr>api_calls = [], err_lines = []\<rparr>)))
       = Inr (PStr ''dst-1'')"
    by (simp add: s2 setup_destination_def load_and_render_yaml_def example_docs_two_def
          example_source_doc_def create_destination_def check_destination_def post_def
          handle_response_def Let_def example_ok_two_def)
  show ?thesis
    using C2_config_error_aborts
            [where env = Map.empty and docs = example_docs and net = "\<lambda>_. Inr example_ok"]
          C2_config_error_aborts
            [where env = example_env and docs = "\<lambda>_. Parsed (PDict [])"
               and net = "\<lambda>_. Inr example_ok" and cfg = "[]"]
          C2_config_error_aborts
            [where env = example_env and docs = example_docs
               and net = "\<lambda>_. Inr example_ok" and ?cfg2.0 = "[]" and tok = "''x''"
               and ws = "''x''" and source_id = "PStr ''src-1''"]
          C2_config_error_aborts
            [where env = example_env and docs = example_docs_two
               and net = "\<lambda>_. Inr example_ok_two"
               and ?cfg3.0 = "[(''name'', PStr ''cdc'')]" and tok = "''x''"
               and ws = "''x''" and source_id = "PStr ''src-1''"
               and destination_id = "PStr ''dst-1''"]
          s1 s2 d2
    by (simp add: example_env_def example_docs_def example_docs_two_def)
qed









end
